theory Spec2Isabelle
  imports Complex_Main
begin

section \<open>JavaScript numbers\<close>

text \<open>
  A JavaScript number is an IEEE double. The embedding keeps the special values that the
  program can produce by an undefined operation (\<open>0/0\<close>, the square root of a negative
  number) and idealises the rest: a finite number is an exact real (no rounding, no
  overflow, no signed zero; a zero divisor counts as \<open>+0\<close>).
\<close>

datatype number = Fin real | PosInf | NegInf | NaN

instantiation number :: "{plus, minus, uminus, times, inverse, abs, ord}"
begin

fun plus_number :: "number \<Rightarrow> number \<Rightarrow> number" where
  "plus_number NaN _ = NaN"
| "plus_number _ NaN = NaN"
| "plus_number (Fin a) (Fin b) = Fin (a + b)"
| "plus_number PosInf NegInf = NaN"
| "plus_number NegInf PosInf = NaN"
| "plus_number PosInf _ = PosInf"
| "plus_number _ PosInf = PosInf"
| "plus_number NegInf _ = NegInf"
| "plus_number _ NegInf = NegInf"

fun uminus_number :: "number \<Rightarrow> number" where
  "uminus_number (Fin a) = Fin (- a)"
| "uminus_number PosInf = NegInf"
| "uminus_number NegInf = PosInf"
| "uminus_number NaN = NaN"

definition minus_number :: "number \<Rightarrow> number \<Rightarrow> number" where
  "minus_number a b = a + (- b)"

fun times_number :: "number \<Rightarrow> number \<Rightarrow> number" where
  "times_number NaN _ = NaN"
| "times_number _ NaN = NaN"
| "times_number (Fin a) (Fin b) = Fin (a * b)"
| "times_number PosInf (Fin b) = (if b = 0 then NaN else if 0 < b then PosInf else NegInf)"
| "times_number NegInf (Fin b) = (if b = 0 then NaN else if 0 < b then NegInf else PosInf)"
| "times_number (Fin a) PosInf = (if a = 0 then NaN else if 0 < a then PosInf else NegInf)"
| "times_number (Fin a) NegInf = (if a = 0 then NaN else if 0 < a then NegInf else PosInf)"
| "times_number PosInf PosInf = PosInf"
| "times_number NegInf NegInf = PosInf"
| "times_number PosInf NegInf = NegInf"
| "times_number NegInf PosInf = NegInf"

fun divide_number :: "number \<Rightarrow> number \<Rightarrow> number" where
  "divide_number NaN _ = NaN"
| "divide_number _ NaN = NaN"
| "divide_number (Fin a) (Fin b) =
     (if b = 0 then (if a = 0 then NaN else if 0 < a then PosInf else NegInf)
      else Fin (a / b))"
| "divide_number (Fin a) _ = Fin 0"
| "divide_number PosInf (Fin b) = (if 0 \<le> b then PosInf else NegInf)"
| "divide_number NegInf (Fin b) = (if 0 \<le> b then NegInf else PosInf)"
| "divide_number _ _ = NaN"

definition inverse_number :: "number \<Rightarrow> number" where
  "inverse_number a = divide (Fin 1) a"

fun abs_number :: "number \<Rightarrow> number" where
  "abs_number (Fin a) = Fin \<bar>a\<bar>"
| "abs_number PosInf = PosInf"
| "abs_number NegInf = PosInf"
| "abs_number NaN = NaN"

fun less_number :: "number \<Rightarrow> number \<Rightarrow> bool" where
  "less_number (Fin a) (Fin b) = (a < b)"
| "less_number (Fin a) PosInf = True"
| "less_number NegInf (Fin b) = True"
| "less_number NegInf PosInf = True"
| "less_number _ _ = False"

definition less_eq_number :: "number \<Rightarrow> number \<Rightarrow> bool" where
  "less_eq_number a b = (a < b \<or> (a \<noteq> NaN \<and> a = b))"

instance ..

end

text \<open>\<open>a === b\<close> on numbers: \<open>NaN\<close> equals nothing, itself included.\<close>

definition strict_eq :: "number \<Rightarrow> number \<Rightarrow> bool" where
  "strict_eq a b = (a \<noteq> NaN \<and> a = b)"

text \<open>Truthiness of a number, and \<open>a || b\<close>: \<open>0\<close> and \<open>NaN\<close> are falsy.\<close>

definition truthy :: "number \<Rightarrow> bool" where
  "truthy a = (a \<noteq> NaN \<and> a \<noteq> Fin 0)"

definition js_or :: "number \<Rightarrow> number \<Rightarrow> number" where
  "js_or a b = (if truthy a then a else b)"

fun Math_sqrt :: "number \<Rightarrow> number" where
  "Math_sqrt (Fin a) = (if a < 0 then NaN else Fin (sqrt a))"
| "Math_sqrt PosInf = PosInf"
| "Math_sqrt NegInf = NaN"
| "Math_sqrt NaN = NaN"

fun Math_exp :: "number \<Rightarrow> number" where
  "Math_exp (Fin a) = Fin (exp a)"
| "Math_exp PosInf = PosInf"
| "Math_exp NegInf = Fin 0"
| "Math_exp NaN = NaN"

definition Math_PI :: number where
  "Math_PI = Fin pi"

text \<open>
  \<open>Math.pow\<close>, by the cases of the language standard's \<open>Number::exponentiate\<close>, in
  their order.
\<close>

fun Math_pow :: "number \<Rightarrow> number \<Rightarrow> number" where
  "Math_pow _ NaN = NaN"
| "Math_pow NaN (Fin e) = (if e = 0 then Fin 1 else NaN)"
| "Math_pow NaN _ = NaN"
| "Math_pow PosInf (Fin e) = (if e = 0 then Fin 1 else if 0 < e then PosInf else Fin 0)"
| "Math_pow PosInf PosInf = PosInf"
| "Math_pow PosInf NegInf = Fin 0"
| "Math_pow NegInf (Fin e) =
     (if e = 0 then Fin 1
      else if 0 < e then (if e \<in> \<int> \<and> odd \<lfloor>e\<rfloor> then NegInf else PosInf)
      else Fin 0)"
| "Math_pow NegInf PosInf = PosInf"
| "Math_pow NegInf NegInf = Fin 0"
| "Math_pow (Fin a) (Fin e) =
     (if e = 0 then Fin 1
      else if a = 0 then (if 0 < e then Fin 0 else PosInf)
      else if a < 0 then (if e \<in> \<int> then Fin (a powi \<lfloor>e\<rfloor>) else NaN)
      else Fin (a powr e))"
| "Math_pow (Fin a) PosInf =
     (if a = 0 then Fin 0
      else if 1 < \<bar>a\<bar> then PosInf else if \<bar>a\<bar> = 1 then NaN else Fin 0)"
| "Math_pow (Fin a) NegInf =
     (if a = 0 then PosInf
      else if 1 < \<bar>a\<bar> then Fin 0 else if \<bar>a\<bar> = 1 then NaN else PosInf)"

section \<open>The kinetics engine (SimulationCanvas.js)\<close>

definition width :: number where
  "width = Fin 400"

definition height :: number where
  "height = Fin 400"

definition numParticles :: nat where
  "numParticles = 50"

definition baseSpeedFactor :: number where
  "baseSpeedFactor = Fin 0.5"

definition restitution :: number where
  "restitution = Fin 0.9"

text \<open>
  A particle object \<open>{ x, y, vx, vy, radius }\<close>. The position fields are named \<open>px\<close> and
  \<open>py\<close> here, since \<open>x\<close> and \<open>y\<close> are wanted as variables.
\<close>

record particle =
  px :: number
  py :: number
  vx :: number
  vy :: number
  radius :: number

text \<open>
  \<open>handleCollision(p1, p2)\<close> mutates the two objects; the model returns both. The two
  arguments are distinct objects at every call (\<open>particles[i]\<close> and \<open>particles[j]\<close>
  with \<open>i < j\<close>).
\<close>

definition handleCollision :: "particle \<Rightarrow> particle \<Rightarrow> particle \<times> particle" where
  "handleCollision p1 p2 =
     (let dx = px p2 - px p1;
          dy = py p2 - py p1;
          dist = Math_sqrt (dx * dx + dy * dy)
      in if strict_eq dist (Fin 0) then (p1, p2)
         else
           let nx = dx / dist;
               ny = dy / dist;
               dvx = vx p2 - vx p1;
               dvy = vy p2 - vy p1;
               relVel = dvx * nx + dvy * ny
           in if Fin 0 < relVel then (p1, p2)
              else
                let impulse = ((- (Fin 1 + restitution)) * relVel) / Fin 2
                in (p1\<lparr>vx := vx p1 - impulse * nx, vy := vy p1 - impulse * ny\<rparr>,
                    p2\<lparr>vx := vx p2 + impulse * nx, vy := vy p2 + impulse * ny\<rparr>))"

text \<open>The first loop of \<open>updateParticles\<close>: one unit time step.\<close>

definition updatePosition :: "particle \<Rightarrow> particle" where
  "updatePosition p = p\<lparr>px := px p + vx p, py := py p + vy p\<rparr>"

text \<open>The body of the wall-collision loop.\<close>

definition wallCollision :: "particle \<Rightarrow> particle" where
  "wallCollision p =
     (let p = (if px p - radius p < Fin 0 then p\<lparr>px := radius p, vx := \<bar>vx p\<bar>\<rparr>
               else if width < px p + radius p
                    then p\<lparr>px := width - radius p, vx := - \<bar>vx p\<bar>\<rparr>
               else p)
      in if py p - radius p < Fin 0 then p\<lparr>py := radius p, vy := \<bar>vy p\<bar>\<rparr>
         else if height < py p + radius p
              then p\<lparr>py := height - radius p, vy := - \<bar>vy p\<bar>\<rparr>
         else p)"

text \<open>
  The body of the pairwise loop for the two objects \<open>p1 = particles[i]\<close> and
  \<open>p2 = particles[j]\<close>: \<open>dx\<close>, \<open>dy\<close> and \<open>dist\<close> are computed before
  \<open>handleCollision\<close>, which changes velocities only.
\<close>

definition centerDist :: "particle \<Rightarrow> particle \<Rightarrow> number" where
  "centerDist p1 p2 =
     (let dx = px p2 - px p1; dy = py p2 - py p1 in Math_sqrt (dx * dx + dy * dy))"

definition pairCollision :: "particle \<Rightarrow> particle \<Rightarrow> particle \<times> particle" where
  "pairCollision p1 p2 =
     (let dx = px p2 - px p1;
          dy = py p2 - py p1;
          dist = Math_sqrt (dx * dx + dy * dy)
      in if dist < radius p1 + radius p2 then
           (case handleCollision p1 p2 of (q1, q2) \<Rightarrow>
              let overlap = radius q1 + radius q2 - dist;
                  sepX = (dx / dist) * (overlap / Fin 2);
                  sepY = (dy / dist) * (overlap / Fin 2)
              in (q1\<lparr>px := px q1 - sepX, py := py q1 - sepY\<rparr>,
                  q2\<lparr>px := px q2 + sepX, py := py q2 + sepY\<rparr>))
         else (p1, p2))"

definition collidePair :: "nat \<Rightarrow> nat \<Rightarrow> particle list \<Rightarrow> particle list" where
  "collidePair i j ps = (case pairCollision (ps ! i) (ps ! j) of (q1, q2) \<Rightarrow> ps[i := q1, j := q2])"

text \<open>
  The two nested \<open>for\<close> loops: \<open>i\<close> from \<open>0\<close>, \<open>j\<close> from \<open>i + 1\<close>, both below
  \<open>particles.length\<close>, which no iteration changes; so every index read is in range.
\<close>

definition particleCollisions :: "particle list \<Rightarrow> particle list" where
  "particleCollisions ps =
     fold (\<lambda>i ps. fold (\<lambda>j ps. collidePair i j ps) [i + 1 ..< length ps] ps) [0 ..< length ps] ps"

text \<open>The thermostat: the speed sum, its mean, and the rescaling loop.\<close>

definition speed :: "particle \<Rightarrow> number" where
  "speed p = Math_sqrt (vx p * vx p + vy p * vy p)"

definition sumSpeed :: "particle list \<Rightarrow> number" where
  "sumSpeed ps = foldl (\<lambda>s p. s + speed p) (Fin 0) ps"

definition avgSpeed :: "particle list \<Rightarrow> number" where
  "avgSpeed ps = sumSpeed ps / Fin (real (length ps))"

definition thermostat :: "number \<Rightarrow> particle list \<Rightarrow> particle list" where
  "thermostat desiredAvgSpeed ps =
     (let scale = desiredAvgSpeed / js_or (avgSpeed ps) (Fin 1)
      in map (\<lambda>p. p\<lparr>vx := vx p * scale, vy := vy p * scale\<rparr>) ps)"

text \<open>
  One animation frame, without the drawing: the canvas calls read the particles and
  change none of them.
\<close>

definition desiredAvgSpeed :: "number \<Rightarrow> number" where
  "desiredAvgSpeed currentTemp = baseSpeedFactor * Math_sqrt currentTemp"

definition updateParticles :: "number \<Rightarrow> particle list \<Rightarrow> particle list" where
  "updateParticles currentTemp ps =
     thermostat (desiredAvgSpeed currentTemp)
       (particleCollisions (map wallCollision (map updatePosition ps)))"

section \<open>The distribution model (MBDistributionChart.js)\<close>

text \<open>The fixed energy array \<open>Array.from({ length: N + 1 }, (_, i) => i)\<close> with \<open>N = 600\<close>.\<close>

definition energies :: "number list" where
  "energies = map (\<lambda>i. Fin (real i)) [0 ..< 600 + 1]"

definition totalParticles :: number where
  "totalParticles = Fin 50"

definition effectiveTemperature :: "number \<Rightarrow> number" where
  "effectiveTemperature T = Fin 0.5 * T + Fin 50"

definition sharpness :: number where
  "sharpness = Fin 2"

definition mbDistribution :: "number \<Rightarrow> number \<Rightarrow> number" where
  "mbDistribution E T =
     (let T_eff = effectiveTemperature T
      in if T_eff \<le> Fin 0 then Fin 0
         else
           let norm = (Fin 2 / Math_sqrt Math_PI) * Math_pow (sharpness / T_eff) (Fin 1.5)
           in Fin 0.72 * norm * Math_sqrt E * Math_exp ((- E) / T_eff) * totalParticles)"

text \<open>A curve point \<open>{ x: E, y: f }\<close>.\<close>

record point =
  pt_x :: number
  pt_y :: number

definition dynamicData :: "number \<Rightarrow> point list" where
  "dynamicData temperature =
     map (\<lambda>E. \<lparr>pt_x = E, pt_y = mbDistribution E temperature\<rparr>) energies"

text \<open>
  The mean energy of Effect 3: one \<open>forEach\<close> over the curve updates \<open>sumE\<close> and
  \<open>sumF\<close>; then \<open>sumF ? sumE / sumF : 0\<close>.
\<close>

definition E_mean :: "point list \<Rightarrow> number" where
  "E_mean curve =
     (case fold (\<lambda>pt (sumE, sumF). (sumE + pt_x pt * pt_y pt, sumF + pt_y pt)) curve
             (Fin 0, Fin 0) of
        (sumE, sumF) \<Rightarrow> if truthy sumF then sumE / sumF else Fin 0)"

text \<open>
  \<open>handleRecordData\<close>: the number \<open>percentageAbove\<close>, before \<open>toFixed(2)\<close> formats it
  for the table. \<open>reduce\<close> adds from the left, starting at \<open>0\<close>.
\<close>

definition threshold :: "bool \<Rightarrow> number" where
  "threshold showCatalyst = (if showCatalyst then Fin 300 else Fin 400)"

definition percentageAbove :: "bool \<Rightarrow> point list \<Rightarrow> number" where
  "percentageAbove showCatalyst curve =
     (let totalArea = foldl (\<lambda>sum pt. sum + pt_y pt) (Fin 0) curve;
          regionArea = foldl (\<lambda>sum pt. sum + pt_y pt) (Fin 0)
                         (filter (\<lambda>pt. threshold showCatalyst \<le> pt_x pt) curve)
      in if truthy totalArea then (regionArea / totalArea) * Fin 100 else Fin 0)"

section \<open>Finite states\<close>

text \<open>
  The properties below are about states whose numbers are finite. A particle or a curve
  point with finite fields is written from its real values.
\<close>

fun finite_number :: "number \<Rightarrow> bool" where
  "finite_number (Fin a) = True"
| "finite_number _ = False"

definition finite_particle :: "particle \<Rightarrow> bool" where
  "finite_particle p =
     (finite_number (px p) \<and> finite_number (py p) \<and> finite_number (vx p) \<and>
      finite_number (vy p) \<and> finite_number (radius p))"

definition finite_velocity :: "particle \<Rightarrow> bool" where
  "finite_velocity p = (finite_number (vx p) \<and> finite_number (vy p))"

definition fin_particle :: "real \<Rightarrow> real \<Rightarrow> real \<Rightarrow> real \<Rightarrow> real \<Rightarrow> particle" where
  "fin_particle x y u v r = \<lparr>px = Fin x, py = Fin y, vx = Fin u, vy = Fin v, radius = Fin r\<rparr>"

definition fin_point :: "real \<times> real \<Rightarrow> point" where
  "fin_point ef = \<lparr>pt_x = Fin (fst ef), pt_y = Fin (snd ef)\<rparr>"

text \<open>
  The relative velocity along the collision normal, as \<open>handleCollision\<close> computes its
  local \<open>relVel\<close>, and the impulse it derives from it.
\<close>

definition normal :: "particle \<Rightarrow> particle \<Rightarrow> number \<times> number" where
  "normal p1 p2 =
     (let dx = px p2 - px p1;
          dy = py p2 - py p1;
          dist = Math_sqrt (dx * dx + dy * dy)
      in (dx / dist, dy / dist))"

definition relVel :: "particle \<Rightarrow> particle \<Rightarrow> number" where
  "relVel p1 p2 =
     (case normal p1 p2 of (nx, ny) \<Rightarrow>
        let dvx = vx p2 - vx p1;
            dvy = vy p2 - vy p1
        in dvx * nx + dvy * ny)"

definition impulse :: "particle \<Rightarrow> particle \<Rightarrow> number" where
  "impulse p1 p2 = ((- (Fin 1 + restitution)) * relVel p1 p2) / Fin 2"

text \<open>The box \<open>[radius, width - radius] \<times> [radius, height - radius]\<close>.\<close>

definition in_box :: "particle \<Rightarrow> bool" where
  "in_box p =
     (radius p \<le> px p \<and> px p \<le> width - radius p \<and>
      radius p \<le> py p \<and> py p \<le> height - radius p)"

text \<open>Two particles overlap when the pairwise loop's test \<open>dist < p1.radius + p2.radius\<close> holds.\<close>

definition overlapping :: "particle \<Rightarrow> particle \<Rightarrow> bool" where
  "overlapping p1 p2 = (centerDist p1 p2 < radius p1 + radius p2)"

text \<open>
  The particles that steps at valid temperatures produce from particles with finite
  fields: velocity and radius stay finite, and the position is finite or, after a
  collision of coincident centres, \<open>NaN\<close> on both axes.
\<close>

definition proper_particle :: "particle \<Rightarrow> bool" where
  "proper_particle p =
     (finite_number (vx p) \<and> finite_number (vy p) \<and> finite_number (radius p) \<and>
      (finite_number (px p) \<and> finite_number (py p) \<or> px p = NaN \<and> py p = NaN))"

text \<open>The real number that a finite number holds.\<close>

fun val :: "number \<Rightarrow> real" where
  "val (Fin a) = a"
| "val _ = 0"

text \<open>The generated curve as pairs of reals (energy, density).\<close>

definition curve :: "number \<Rightarrow> (real \<times> real) list" where
  "curve T = map (\<lambda>pt. (val (pt_x pt), val (pt_y pt))) (dynamicData T)"

text \<open>
  The summary quantities in the words of the specification, over a curve of real pairs:
  the density-weighted mean energy \<open>\<Sum> E f(E) / \<Sum> f(E)\<close>, and the percentage of the
  density mass at or above a threshold; both \<open>0\<close> when the total density is \<open>0\<close>. The
  functions \<open>E_mean\<close> and \<open>percentageAbove\<close> above, taken from the source, are compared
  with them.
\<close>

definition spec_mean_energy :: "(real \<times> real) list \<Rightarrow> real" where
  "spec_mean_energy pts =
     (if sum_list (map snd pts) = 0 then 0
      else sum_list (map (\<lambda>(e, f). e * f) pts) / sum_list (map snd pts))"

definition spec_percentage_above :: "real \<Rightarrow> (real \<times> real) list \<Rightarrow> real" where
  "spec_percentage_above activationThreshold pts =
     (if sum_list (map snd pts) = 0 then 0
      else 100 * sum_list (map snd (filter (\<lambda>(e, f). activationThreshold \<le> e) pts))
             / sum_list (map snd pts))"

section \<open>Arithmetic of finite numbers\<close>

lemma Fin_minus [simp]: "Fin a - Fin b = Fin (a - b)"
  by (simp add: minus_number_def)

lemma Fin_le [simp]: "(Fin a \<le> Fin b) = (a \<le> b)"
  by (auto simp: less_eq_number_def)

lemma strict_eq_Fin [simp]: "strict_eq (Fin a) (Fin b) = (a = b)"
  by (simp add: strict_eq_def)

lemma truthy_Fin [simp]: "truthy (Fin a) = (a \<noteq> 0)"
  by (simp add: truthy_def)

lemma finite_numberE: "finite_number a \<Longrightarrow> (\<And>r. a = Fin r \<Longrightarrow> P) \<Longrightarrow> P"
  by (cases a) simp_all

lemma fin_particle_sel [simp]:
  "px (fin_particle x y u v r) = Fin x" "py (fin_particle x y u v r) = Fin y"
  "vx (fin_particle x y u v r) = Fin u" "vy (fin_particle x y u v r) = Fin v"
  "radius (fin_particle x y u v r) = Fin r"
  by (simp_all add: fin_particle_def)

lemma finite_particleE:
  assumes "finite_particle p"
  obtains x y u v r where "p = fin_particle x y u v r"
proof -
  from assms obtain x y u v r
    where "px p = Fin x" "py p = Fin y" "vx p = Fin u" "vy p = Fin v" "radius p = Fin r"
    unfolding finite_particle_def by (auto elim!: finite_numberE)
  then have "p = fin_particle x y u v r"
    by (cases p) (simp add: fin_particle_def)
  then show thesis by (rule that)
qed

lemma finite_fin_particle [simp]: "finite_particle (fin_particle x y u v r)"
  by (simp add: finite_particle_def)

section \<open>The collision handler\<close>

lemma unit_normal:
  fixes dx dy d :: real
  assumes "d * d = dx * dx + dy * dy" and "d \<noteq> 0"
  shows "(dx / d) * (dx / d) + (dy / d) * (dy / d) = 1"
proof -
  have "(dx / d) * (dx / d) + (dy / d) * (dy / d) = (dx * dx + dy * dy) / (d * d)"
    by (simp add: add_divide_distrib)
  also have "\<dots> = 1" using assms by auto
  finally show ?thesis .
qed

lemma centerDist_fin:
  "centerDist (fin_particle x1 y1 u1 v1 r1) (fin_particle x2 y2 u2 v2 r2)
     = Fin (sqrt ((x2 - x1) * (x2 - x1) + (y2 - y1) * (y2 - y1)))"
  by (simp add: centerDist_def not_sum_squares_lt_zero)

lemma normal_fin:
  assumes "d = sqrt ((x2 - x1) * (x2 - x1) + (y2 - y1) * (y2 - y1))" "d \<noteq> 0"
  shows "normal (fin_particle x1 y1 u1 v1 r1) (fin_particle x2 y2 u2 v2 r2)
     = (Fin ((x2 - x1) / d), Fin ((y2 - y1) / d))"
  using assms by (simp add: normal_def not_sum_squares_lt_zero)

lemma relVel_fin:
  assumes "d = sqrt ((x2 - x1) * (x2 - x1) + (y2 - y1) * (y2 - y1))" "d \<noteq> 0"
  shows "relVel (fin_particle x1 y1 u1 v1 r1) (fin_particle x2 y2 u2 v2 r2)
     = Fin ((u2 - u1) * ((x2 - x1) / d) + (v2 - v1) * ((y2 - y1) / d))"
  by (simp add: relVel_def normal_fin [OF assms])

text \<open>What the handler computes on two finite particles, in real arithmetic.\<close>

lemma handleCollision_fin:
  assumes d: "d = sqrt ((x2 - x1) * (x2 - x1) + (y2 - y1) * (y2 - y1))"
      and r: "r = (u2 - u1) * ((x2 - x1) / d) + (v2 - v1) * ((y2 - y1) / d)"
      and j: "j = (- (1 + 9/10)) * r / 2"
  shows "handleCollision (fin_particle x1 y1 u1 v1 r1) (fin_particle x2 y2 u2 v2 r2) =
     (if d = 0 \<or> 0 < r then (fin_particle x1 y1 u1 v1 r1, fin_particle x2 y2 u2 v2 r2)
      else (fin_particle x1 y1 (u1 - j * ((x2 - x1) / d)) (v1 - j * ((y2 - y1) / d)) r1,
            fin_particle x2 y2 (u2 + j * ((x2 - x1) / d)) (v2 + j * ((y2 - y1) / d)) r2))"
  unfolding d r j
  by (simp add: handleCollision_def Let_def restitution_def not_sum_squares_lt_zero
        fin_particle_def)

lemma restitution_real:
  fixes nx ny j u1 u2 v1 v2 :: real
  assumes n: "nx * nx + ny * ny = 1"
  shows "((u2 + j * nx) - (u1 - j * nx)) * nx + ((v2 + j * ny) - (v1 - j * ny)) * ny
          = (u2 - u1) * nx + (v2 - v1) * ny + 2 * j"
proof -
  have "((u2 + j * nx) - (u1 - j * nx)) * nx + ((v2 + j * ny) - (v1 - j * ny)) * ny
       = (u2 - u1) * nx + (v2 - v1) * ny + 2 * j * (nx * nx + ny * ny)"
    by (simp add: algebra_simps)
  then show ?thesis using n by simp
qed

lemma sqrt_25: "sqrt 25 = 5"
  by (rule real_sqrt_unique) simp_all

lemma sqrt_36: "sqrt 36 = 6"
  by (rule real_sqrt_unique) simp_all

lemma sqrt_49: "sqrt 49 = 7"
  by (rule real_sqrt_unique) simp_all

lemma sqrt_64: "sqrt 64 = 8"
  by (rule real_sqrt_unique) simp_all

lemma sqrt_100: "sqrt 100 = 10"
  by (rule real_sqrt_unique) simp_all

lemma sqrt_289: "sqrt 289 = 17"
  by (rule real_sqrt_unique) simp_all

lemma sqrt_289_4: "sqrt (289 / 4) = 17 / 2"
  by (rule real_sqrt_unique) (simp_all add: power2_eq_square)

lemma sqrt_400: "sqrt 400 = 20"
  by (rule real_sqrt_unique) simp_all

lemma upt_0_2: "[0 ..< 2] = [0, Suc 0]"
  by (simp add: upt_rec)

lemma upt_0_3: "[0 ..< 3] = [0, Suc 0, Suc (Suc 0)]"
  by (simp add: upt_rec)

lemma upt_1_3: "[Suc 0 ..< 3] = [Suc 0, Suc (Suc 0)]"
  by (simp add: upt_rec)

lemma upt_2_3: "[Suc (Suc 0) ..< 3] = [Suc (Suc 0)]"
  by (simp add: upt_rec)

text \<open>
  Claim C3. For two particles with finite fields, a positive centre distance and a
  negative relative velocity along the collision normal (approaching),
  \<open>handleCollision\<close> takes \<open>impulse\<close> times the normal from the velocity of the first
  particle and adds the same vector to the velocity of the second, and afterwards the
  relative velocity along the normal is \<open>- restitution\<close> times what it was, with
  \<open>restitution = 0.9\<close>. Positions and radii stay as they were. The handler itself does
  not test whether the particles overlap, so the property needs no overlap.
\<close>

theorem handleCollision_restitution:
  assumes f1: "finite_particle p1" and f2: "finite_particle p2"
      and dpos: "Fin 0 < centerDist p1 p2"
      and appr: "relVel p1 p2 < Fin 0"
      and res: "handleCollision p1 p2 = (q1, q2)"
  shows "relVel q1 q2 = (- restitution) * relVel p1 p2
       \<and> (case normal p1 p2 of (nx, ny) \<Rightarrow>
            vx q1 = vx p1 - impulse p1 p2 * nx \<and> vy q1 = vy p1 - impulse p1 p2 * ny \<and>
            vx q2 = vx p2 + impulse p1 p2 * nx \<and> vy q2 = vy p2 + impulse p1 p2 * ny)
       \<and> px q1 = px p1 \<and> py q1 = py p1 \<and> px q2 = px p2 \<and> py q2 = py p2
       \<and> radius q1 = radius p1 \<and> radius q2 = radius p2"
proof -
  from f1 obtain x1 y1 u1 v1 r1 where p1: "p1 = fin_particle x1 y1 u1 v1 r1"
    by (rule finite_particleE)
  from f2 obtain x2 y2 u2 v2 r2 where p2: "p2 = fin_particle x2 y2 u2 v2 r2"
    by (rule finite_particleE)
  define d where "d = sqrt ((x2 - x1) * (x2 - x1) + (y2 - y1) * (y2 - y1))"
  define nx where "nx = (x2 - x1) / d"
  define ny where "ny = (y2 - y1) / d"
  define r where "r = (u2 - u1) * nx + (v2 - v1) * ny"
  define j where "j = (- (1 + 9/10)) * r / 2"
  have "0 < d"
    using dpos by (simp add: p1 p2 centerDist_fin d_def del: real_sqrt_gt_0_iff)
  then have d0: "d \<noteq> 0" by simp
  note rf = relVel_fin [OF d_def d0, folded nx_def ny_def]
  have rv: "relVel p1 p2 = Fin r"
    unfolding p1 p2 r_def by (rule rf)
  have nm: "normal p1 p2 = (Fin nx, Fin ny)"
    unfolding p1 p2 nx_def ny_def by (rule normal_fin [OF d_def d0])
  have rneg: "r < 0" using appr rv by simp
  have q: "q1 = fin_particle x1 y1 (u1 - j * nx) (v1 - j * ny) r1"
          "q2 = fin_particle x2 y2 (u2 + j * nx) (v2 + j * ny) r2"
    using res d0 rneg
      handleCollision_fin [OF d_def r_def [unfolded nx_def ny_def] j_def, of r1 r2]
    by (simp_all add: p1 p2 nx_def ny_def)
  have dd: "d * d = (x2 - x1) * (x2 - x1) + (y2 - y1) * (y2 - y1)"
    by (simp add: d_def)
  have un: "nx * nx + ny * ny = 1"
    unfolding nx_def ny_def by (rule unit_normal [OF dd d0])
  have "relVel q1 q2
      = Fin (((u2 + j * nx) - (u1 - j * nx)) * nx + ((v2 + j * ny) - (v1 - j * ny)) * ny)"
    unfolding q by (rule rf)
  also have "\<dots> = Fin (r + 2 * j)"
    by (simp only: restitution_real [OF un] r_def)
  also have "\<dots> = (- restitution) * relVel p1 p2"
    by (simp add: rv restitution_def j_def)
  finally have A: "relVel q1 q2 = (- restitution) * relVel p1 p2" .
  have im: "impulse p1 p2 = Fin j"
    by (simp add: impulse_def rv restitution_def j_def)
  show ?thesis
    by (simp add: A nm im) (simp add: q p1 p2)
qed

text \<open>
  A head-on pair: velocities \<open>1\<close> and \<open>-1\<close> along the \<open>x\<close> axis at distance \<open>6\<close>. The
  relative normal velocity goes from \<open>-2\<close> to \<open>1.8\<close>.
\<close>

theorem handleCollision_restitution_witness:
  "relVel (fst (handleCollision (fin_particle 0 0 1 0 5) (fin_particle 6 0 (- 1) 0 5)))
          (snd (handleCollision (fin_particle 0 0 1 0 5) (fin_particle 6 0 (- 1) 0 5)))
     = Fin (9 / 5)"
  using handleCollision_restitution [of "fin_particle 0 0 1 0 5" "fin_particle 6 0 (- 1) 0 5",
          OF _ _ _ _ prod.collapse [symmetric]]
  by (simp add: centerDist_fin relVel_fin sqrt_36 restitution_def)

text \<open>
  Claim C10. \<open>handleCollision\<close> conserves the total momentum of a pair of particles with
  finite fields: the sum of the two velocities is the same before and after, on every
  path through the handler, and the change of one velocity is the negation of the change
  of the other.
\<close>

theorem handleCollision_momentum:
  assumes f1: "finite_particle p1" and f2: "finite_particle p2"
      and res: "handleCollision p1 p2 = (q1, q2)"
  shows "vx q1 + vx q2 = vx p1 + vx p2 \<and> vy q1 + vy q2 = vy p1 + vy p2
       \<and> vx q1 - vx p1 = - (vx q2 - vx p2) \<and> vy q1 - vy p1 = - (vy q2 - vy p2)"
proof -
  from f1 obtain x1 y1 u1 v1 r1 where p1: "p1 = fin_particle x1 y1 u1 v1 r1"
    by (rule finite_particleE)
  from f2 obtain x2 y2 u2 v2 r2 where p2: "p2 = fin_particle x2 y2 u2 v2 r2"
    by (rule finite_particleE)
  show ?thesis
    using res unfolding p1 p2 handleCollision_fin [OF refl refl refl]
    by (auto split: if_splits)
qed

theorem handleCollision_momentum_witness:
  "vx (fst (handleCollision (fin_particle 0 0 1 0 5) (fin_particle 6 0 (- 1) 0 5)))
   + vx (snd (handleCollision (fin_particle 0 0 1 0 5) (fin_particle 6 0 (- 1) 0 5))) = Fin 0"
  using handleCollision_momentum [of "fin_particle 0 0 1 0 5" "fin_particle 6 0 (- 1) 0 5",
          OF _ _ prod.collapse [symmetric]]
  by simp

section \<open>Pairwise resolution\<close>

lemma handleCollision_fin_shape:
  "\<exists>u1' v1' u2' v2'.
     handleCollision (fin_particle x1 y1 u1 v1 r1) (fin_particle x2 y2 u2 v2 r2)
       = (fin_particle x1 y1 u1' v1' r1, fin_particle x2 y2 u2' v2' r2)"
  unfolding handleCollision_fin [OF refl refl refl] by (simp split: if_splits) blast

lemma pairCollision_fin:
  assumes d: "d = sqrt ((x2 - x1) * (x2 - x1) + (y2 - y1) * (y2 - y1))"
      and d0: "d \<noteq> 0" and ov: "d < r1 + r2"
      and sx: "sx = ((x2 - x1) / d) * ((r1 + r2 - d) / 2)"
      and sy: "sy = ((y2 - y1) / d) * ((r1 + r2 - d) / 2)"
  shows "\<exists>u1' v1' u2' v2'.
     pairCollision (fin_particle x1 y1 u1 v1 r1) (fin_particle x2 y2 u2 v2 r2)
       = (fin_particle (x1 - sx) (y1 - sy) u1' v1' r1,
          fin_particle (x2 + sx) (y2 + sy) u2' v2' r2)"
proof -
  obtain u1' v1' u2' v2' where h:
    "handleCollision (fin_particle x1 y1 u1 v1 r1) (fin_particle x2 y2 u2 v2 r2)
       = (fin_particle x1 y1 u1' v1' r1, fin_particle x2 y2 u2' v2' r2)"
    using handleCollision_fin_shape by blast
  have "pairCollision (fin_particle x1 y1 u1 v1 r1) (fin_particle x2 y2 u2 v2 r2)
       = (fin_particle (x1 - sx) (y1 - sy) u1' v1' r1,
          fin_particle (x2 + sx) (y2 + sy) u2' v2' r2)"
    using d0 ov unfolding pairCollision_def h d sx sy
    by (auto simp: Let_def not_sum_squares_lt_zero fin_particle_def)
  then show ?thesis by blast
qed

text \<open>
  Moving both centres apart along the centre line by half the overlap each scales the
  centre line by \<open>R / d\<close>.
\<close>

lemma separated_real:
  fixes dx dy d R :: real
  assumes d: "d = sqrt (dx * dx + dy * dy)" and dpos: "0 < d" and R: "d < R"
      and sx: "sx = (dx / d) * ((R - d) / 2)" and sy: "sy = (dy / d) * ((R - d) / 2)"
  shows "sqrt ((dx + sx + sx) * (dx + sx + sx) + (dy + sy + sy) * (dy + sy + sy)) = R"
proof -
  define k where "k = R / d"
  have kd: "k * d = R" using dpos by (simp add: k_def)
  have ex: "dx + sx + sx = dx * k"
    using dpos unfolding sx k_def by (simp add: field_simps)
  have ey: "dy + sy + sy = dy * k"
    using dpos unfolding sy k_def by (simp add: field_simps)
  have dd: "dx * dx + dy * dy = d * d" unfolding d by simp
  have "(dx + sx + sx) * (dx + sx + sx) + (dy + sy + sy) * (dy + sy + sy)
      = (dx * dx + dy * dy) * (k * k)"
    unfolding ex ey by (simp add: algebra_simps)
  also have "\<dots> = (k * d) * (k * d)" unfolding dd by simp
  also have "\<dots> = R * R" unfolding kd ..
  finally have "sqrt ((dx + sx + sx) * (dx + sx + sx) + (dy + sy + sy) * (dy + sy + sy))
      = sqrt (R * R)"
    by simp
  also have "\<dots> = R" using dpos R by simp
  finally show ?thesis .
qed

text \<open>
  In exact arithmetic, resolving a pair whose centre distance \<open>d\<close> satisfies
  \<open>0 < d < r1 + r2\<close> puts the two centres \<open>r1 + r2\<close> apart.
\<close>

lemma pairCollision_distance:
  assumes f1: "finite_particle p1" and f2: "finite_particle p2"
      and dpos: "Fin 0 < centerDist p1 p2"
      and ov: "centerDist p1 p2 < radius p1 + radius p2"
      and res: "pairCollision p1 p2 = (q1, q2)"
  shows "centerDist q1 q2 = radius p1 + radius p2"
proof -
  from f1 obtain x1 y1 u1 v1 r1 where p1: "p1 = fin_particle x1 y1 u1 v1 r1"
    by (rule finite_particleE)
  from f2 obtain x2 y2 u2 v2 r2 where p2: "p2 = fin_particle x2 y2 u2 v2 r2"
    by (rule finite_particleE)
  define d where "d = sqrt ((x2 - x1) * (x2 - x1) + (y2 - y1) * (y2 - y1))"
  define sx where "sx = ((x2 - x1) / d) * ((r1 + r2 - d) / 2)"
  define sy where "sy = ((y2 - y1) / d) * ((r1 + r2 - d) / 2)"
  have d0: "0 < d"
    using dpos by (simp add: p1 p2 centerDist_fin d_def del: real_sqrt_gt_0_iff)
  have dR: "d < r1 + r2"
    using ov by (simp add: p1 p2 centerDist_fin d_def)
  from d0 have "d \<noteq> 0" by simp
  from pairCollision_fin [OF d_def this dR sx_def sy_def, of u1 v1 u2 v2] res
  obtain u1' v1' u2' v2' where
    q: "q1 = fin_particle (x1 - sx) (y1 - sy) u1' v1' r1"
       "q2 = fin_particle (x2 + sx) (y2 + sy) u2' v2' r2"
    unfolding p1 p2 by auto
  have e: "x2 + sx - (x1 - sx) = (x2 - x1) + sx + sx"
          "y2 + sy - (y1 - sy) = (y2 - y1) + sy + sy"
    by simp_all
  show ?thesis
    unfolding q p1 p2 centerDist_fin e
    using separated_real [OF d_def d0 dR sx_def sy_def] by simp
qed

text \<open>
  Claim C5, as the code has it. For a pair of particles with finite fields whose centre
  distance \<open>d\<close> satisfies \<open>0 < d < r1 + r2\<close>, right after that pair's own resolution
  the centre distance is at least \<open>r1 + r2\<close> minus a tolerance, for every tolerance
  \<open>tol \<ge> 0\<close>. (The loop resolves each pair once, in index order; what a later pair
  does to an earlier one is the counterexample below.)
\<close>

theorem pairCollision_separates:
  assumes f1: "finite_particle p1" and f2: "finite_particle p2"
      and dpos: "Fin 0 < centerDist p1 p2"
      and ov: "centerDist p1 p2 < radius p1 + radius p2"
      and res: "pairCollision p1 p2 = (q1, q2)"
      and tol: "0 \<le> tol"
  shows "radius p1 + radius p2 - Fin tol \<le> centerDist q1 q2"
proof -
  from f1 f2 obtain r1 r2 where r: "radius p1 = Fin r1" "radius p2 = Fin r2"
    unfolding finite_particle_def by (auto elim!: finite_numberE)
  have "centerDist q1 q2 = Fin (r1 + r2)"
    using pairCollision_distance [OF f1 f2 dpos ov res] by (simp add: r)
  with tol show ?thesis by (simp add: r)
qed

text \<open>
  Two particles of radius \<open>5\<close> at distance \<open>6\<close> end at least \<open>10 - 1 / 1000000\<close>
  apart.
\<close>

theorem pairCollision_separates_witness:
  "Fin 5 + Fin 5 - Fin (1 / 1000000)
     \<le> centerDist (fst (pairCollision (fin_particle 0 0 0 0 5) (fin_particle 6 0 0 0 5)))
                  (snd (pairCollision (fin_particle 0 0 0 0 5) (fin_particle 6 0 0 0 5)))"
  using pairCollision_separates [of "fin_particle 0 0 0 0 5" "fin_particle 6 0 0 0 5" _ _
          "1 / 1000000", OF _ _ _ _ prod.collapse [symmetric]]
  by (simp add: centerDist_fin sqrt_36)

text \<open>
  Three particles of radius \<open>5\<close> in a line, at \<open>x = 100, 108, 116\<close> after the move and
  the wall pass. The pair \<open>(0, 1)\<close> is separated to distance \<open>10\<close>; the pair \<open>(0, 2)\<close>
  is \<open>17\<close> apart and untouched; the pair \<open>(1, 2)\<close>, now \<open>7\<close> apart, is separated, which
  pushes particle \<open>1\<close> back towards particle \<open>0\<close>.
\<close>

lemma three_in_line_walls:
  "map wallCollision (map updatePosition
      [fin_particle 100 195 0 5 5, fin_particle 108 195 0 5 5, fin_particle 116 195 0 5 5])
    = [fin_particle 100 200 0 5 5, fin_particle 108 200 0 5 5, fin_particle 116 200 0 5 5]"
  by (simp add: updatePosition_def wallCollision_def fin_particle_def width_def height_def
        Let_def)

lemma three_in_line_pair_0_1:
  "pairCollision (fin_particle 100 200 0 5 5) (fin_particle 108 200 0 5 5) =
    (fin_particle 99 200 0 5 5, fin_particle 109 200 0 5 5)"
  by (simp add: pairCollision_def handleCollision_def Let_def restitution_def fin_particle_def
        sqrt_64)

lemma three_in_line_pair_0_2:
  "pairCollision (fin_particle 99 200 0 5 5) (fin_particle 116 200 0 5 5) =
    (fin_particle 99 200 0 5 5, fin_particle 116 200 0 5 5)"
  by (simp add: pairCollision_def Let_def fin_particle_def sqrt_289)

lemma three_in_line_pair_1_2:
  "pairCollision (fin_particle 109 200 0 5 5) (fin_particle 116 200 0 5 5) =
    (fin_particle (215 / 2) 200 0 5 5, fin_particle (235 / 2) 200 0 5 5)"
  by (simp add: pairCollision_def handleCollision_def Let_def restitution_def fin_particle_def
        sqrt_49)

lemma three_in_line_collisions:
  "particleCollisions
      [fin_particle 100 200 0 5 5, fin_particle 108 200 0 5 5, fin_particle 116 200 0 5 5]
    = [fin_particle 99 200 0 5 5, fin_particle (215 / 2) 200 0 5 5,
       fin_particle (235 / 2) 200 0 5 5]"
  by (simp add: particleCollisions_def upt_0_3 upt_1_3 upt_2_3 collidePair_def
        three_in_line_pair_0_1 three_in_line_pair_0_2 three_in_line_pair_1_2)

lemma three_in_line_step:
  "updateParticles (Fin 100)
      [fin_particle 100 195 0 5 5, fin_particle 108 195 0 5 5, fin_particle 116 195 0 5 5]
     = [fin_particle 99 200 0 5 5, fin_particle (215 / 2) 200 0 5 5,
        fin_particle (235 / 2) 200 0 5 5]"
  unfolding updateParticles_def three_in_line_walls three_in_line_collisions
  by (simp add: thermostat_def avgSpeed_def sumSpeed_def speed_def desiredAvgSpeed_def
        baseSpeedFactor_def js_or_def sqrt_25 fin_particle_def)

text \<open>
  Claim C5 as stated fails: after one whole step at temperature \<open>100\<close>, particles \<open>0\<close>
  and \<open>1\<close> of the ensemble above are \<open>8.5\<close> apart, less than the sum of their radii
  even with a tolerance of \<open>1\<close>.
\<close>

theorem separation_counterexample:
  "\<not> (radius (updateParticles (Fin 100)
                 [fin_particle 100 195 0 5 5, fin_particle 108 195 0 5 5,
                  fin_particle 116 195 0 5 5] ! 0)
        + radius (updateParticles (Fin 100)
                 [fin_particle 100 195 0 5 5, fin_particle 108 195 0 5 5,
                  fin_particle 116 195 0 5 5] ! 1) - Fin 1
       \<le> centerDist
            (updateParticles (Fin 100)
                 [fin_particle 100 195 0 5 5, fin_particle 108 195 0 5 5,
                  fin_particle 116 195 0 5 5] ! 0)
            (updateParticles (Fin 100)
                 [fin_particle 100 195 0 5 5, fin_particle 108 195 0 5 5,
                  fin_particle 116 195 0 5 5] ! 1))
   \<and> centerDist
            (updateParticles (Fin 100)
                 [fin_particle 100 195 0 5 5, fin_particle 108 195 0 5 5,
                  fin_particle 116 195 0 5 5] ! 0)
            (updateParticles (Fin 100)
                 [fin_particle 100 195 0 5 5, fin_particle 108 195 0 5 5,
                  fin_particle 116 195 0 5 5] ! 1) = Fin (17 / 2)"
  unfolding three_in_line_step
  by (simp add: centerDist_fin sqrt_289_4)

subsection \<open>Coincident centres\<close>

text \<open>
  With both centres at the same point, \<open>dist\<close> is \<open>0\<close> and the overlap test holds for
  any positive radii. \<open>handleCollision\<close> returns at its guard \<open>dist === 0\<close>, but the
  loop body goes on to \<open>dx / dist\<close>, which is \<open>0 / 0\<close>: both positions become \<open>NaN\<close>.
\<close>

lemma pairCollision_coincident:
  assumes "0 < r1 + r2"
  shows "pairCollision (fin_particle x y u1 v1 r1) (fin_particle x y u2 v2 r2) =
    (\<lparr>px = NaN, py = NaN, vx = Fin u1, vy = Fin v1, radius = Fin r1\<rparr>,
     \<lparr>px = NaN, py = NaN, vx = Fin u2, vy = Fin v2, radius = Fin r2\<rparr>)"
  using assms
  by (simp add: pairCollision_def handleCollision_def Let_def fin_particle_def
        minus_number_def)

lemma corner_walls:
  "map wallCollision (map updatePosition
      [fin_particle 2 3 (- 3) (- 4) 5, fin_particle 1 2 (- 3) (- 4) 5])
    = [fin_particle 5 5 3 4 5, fin_particle 5 5 3 4 5]"
  by (simp add: updatePosition_def wallCollision_def fin_particle_def width_def height_def
        Let_def)

lemma corner_collisions:
  "particleCollisions [fin_particle 5 5 3 4 5, fin_particle 5 5 3 4 5]
    = [\<lparr>px = NaN, py = NaN, vx = Fin 3, vy = Fin 4, radius = Fin 5\<rparr>,
       \<lparr>px = NaN, py = NaN, vx = Fin 3, vy = Fin 4, radius = Fin 5\<rparr>]"
  by (simp add: particleCollisions_def upt_0_2 collidePair_def pairCollision_coincident)

text \<open>
  Claim C4 on the code. At temperature \<open>100\<close>, two particles of radius \<open>5\<close> and speed
  \<open>5\<close> move into the corner at the origin in the same step, and the wall pass puts both
  at \<open>(5, 5)\<close>. The pairwise loop then changes both positions to \<open>NaN\<close> (the velocities
  it leaves alone), and the step ends with them.
\<close>

theorem coincident_pair_NaN:
  "pairCollision (fin_particle 5 5 3 4 5) (fin_particle 5 5 3 4 5) =
     (\<lparr>px = NaN, py = NaN, vx = Fin 3, vy = Fin 4, radius = Fin 5\<rparr>,
      \<lparr>px = NaN, py = NaN, vx = Fin 3, vy = Fin 4, radius = Fin 5\<rparr>)
   \<and> updateParticles (Fin 100)
        [fin_particle 2 3 (- 3) (- 4) 5, fin_particle 1 2 (- 3) (- 4) 5]
     = [\<lparr>px = NaN, py = NaN, vx = Fin 3, vy = Fin 4, radius = Fin 5\<rparr>,
        \<lparr>px = NaN, py = NaN, vx = Fin 3, vy = Fin 4, radius = Fin 5\<rparr>]"
  unfolding updateParticles_def corner_walls corner_collisions
  by (simp add: thermostat_def avgSpeed_def sumSpeed_def speed_def desiredAvgSpeed_def
        baseSpeedFactor_def js_or_def sqrt_25 pairCollision_coincident)

section \<open>Walls\<close>

lemma wallCollision_in_box:
  assumes r: "radius p = Fin r" "r + r \<le> 400" and x: "px p \<noteq> NaN" and y: "py p \<noteq> NaN"
  shows "in_box (wallCollision p)"
proof -
  have "radius (wallCollision p) = Fin r"
    using r by (simp add: wallCollision_def Let_def)
  moreover have "Fin r \<le> px (wallCollision p) \<and> px (wallCollision p) \<le> Fin (400 - r)"
    using r x by (cases "px p") (auto simp: wallCollision_def Let_def width_def minus_number_def)
  moreover have "Fin r \<le> py (wallCollision p) \<and> py (wallCollision p) \<le> Fin (400 - r)"
    using r y by (cases "py p") (auto simp: wallCollision_def Let_def height_def minus_number_def)
  ultimately show ?thesis
    by (simp add: in_box_def width_def height_def)
qed

text \<open>Where no two particles overlap, the pairwise loop changes nothing.\<close>

lemma pairCollision_apart: "\<not> overlapping p1 p2 \<Longrightarrow> pairCollision p1 p2 = (p1, p2)"
  by (simp add: overlapping_def centerDist_def pairCollision_def Let_def)

lemma collidePair_apart: "\<not> overlapping (ps ! i) (ps ! j) \<Longrightarrow> collidePair i j ps = ps"
  by (simp add: collidePair_def pairCollision_apart)

lemma inner_apart:
  "\<forall>j\<in>set js. \<not> overlapping (ps ! i) (ps ! j) \<Longrightarrow>
   fold (\<lambda>j ps. collidePair i j ps) js ps = ps"
  by (induction js) (simp_all add: collidePair_apart)

lemma outer_apart:
  assumes "\<forall>i\<in>set is. \<forall>j\<in>{i + 1 ..< length ps}. \<not> overlapping (ps ! i) (ps ! j)"
  shows "fold (\<lambda>i ps. fold (\<lambda>j ps. collidePair i j ps) [i + 1 ..< length ps] ps) is ps = ps"
  using assms by (induction "is") (simp_all add: inner_apart)

lemma particleCollisions_apart:
  assumes "sorted_wrt (\<lambda>p q. \<not> overlapping p q) ps"
  shows "particleCollisions ps = ps"
  unfolding particleCollisions_def
  by (rule outer_apart) (use assms in \<open>auto simp: sorted_wrt_iff_nth_less\<close>)

lemma thermostat_in_box: "list_all in_box (thermostat s ps) = list_all in_box ps"
  by (simp add: thermostat_def Let_def list_all_iff in_box_def)

text \<open>
  Claim C1, as the code has it. For every temperature and every ensemble of particles
  with finite fields and radius \<open>5\<close>, each particle is inside
  \<open>[radius, width - radius] \<times> [radius, height - radius]\<close> right after the wall pass of a
  step; and at the end of the step too, when no two particles overlap after the wall
  pass. (\<open>sorted_wrt P\<close> says that \<open>P\<close> holds for every two elements in list order.)
\<close>

theorem wall_containment:
  assumes fin: "list_all finite_particle ps"
      and rad: "list_all (\<lambda>p. radius p = Fin 5) ps"
  shows "list_all in_box (map wallCollision (map updatePosition ps))
       \<and> (sorted_wrt (\<lambda>p q. \<not> overlapping p q) (map wallCollision (map updatePosition ps))
            \<longrightarrow> list_all in_box (updateParticles T ps))"
proof -
  have A: "list_all in_box (map wallCollision (map updatePosition ps))"
    unfolding list_all_iff
  proof clarsimp
    fix p assume "p \<in> set ps"
    with fin rad have f: "finite_particle p" and r: "radius p = Fin 5"
      by (simp_all add: list_all_iff)
    from f obtain x y u v r' where "p = fin_particle x y u v r'" by (rule finite_particleE)
    then have "px (updatePosition p) \<noteq> NaN" "py (updatePosition p) \<noteq> NaN"
      by (simp_all add: updatePosition_def)
    moreover have "radius (updatePosition p) = Fin 5"
      using r by (simp add: updatePosition_def)
    ultimately show "in_box (wallCollision (updatePosition p))"
      by (intro wallCollision_in_box [where r = 5]) simp_all
  qed
  then show ?thesis
    by (simp add: updateParticles_def thermostat_in_box particleCollisions_apart)
qed

text \<open>
  One particle runs into the left wall and is put back at \<open>x = 5\<close>; the other is \<open>20\<close>
  away from it after the wall pass.
\<close>

lemma apart_walls:
  "map wallCollision (map updatePosition
      [fin_particle 8 200 (- 5) 0 5, fin_particle 20 200 5 0 5])
    = [fin_particle 5 200 5 0 5, fin_particle 25 200 5 0 5]"
  by (simp add: updatePosition_def wallCollision_def fin_particle_def width_def height_def
        Let_def)

theorem wall_containment_witness:
  "list_all in_box (map wallCollision (map updatePosition
      [fin_particle 8 200 (- 5) 0 5, fin_particle 20 200 5 0 5]))
   \<and> list_all in_box (updateParticles (Fin 100)
      [fin_particle 8 200 (- 5) 0 5, fin_particle 20 200 5 0 5])"
  using wall_containment [of "[fin_particle 8 200 (- 5) 0 5, fin_particle 20 200 5 0 5]"
          "Fin 100"]
  unfolding apart_walls
  by (simp add: overlapping_def centerDist_fin sqrt_400)

text \<open>
  The same particle at the wall, with the other one only \<open>2\<close> away after the wall pass:
  the separation moves each by \<open>4\<close>, and the first particle ends the step at \<open>x = 1\<close>.
\<close>

lemma close_walls:
  "map wallCollision (map updatePosition
      [fin_particle 8 200 (- 5) 0 5, fin_particle 2 200 5 0 5])
    = [fin_particle 5 200 5 0 5, fin_particle 7 200 5 0 5]"
  by (simp add: updatePosition_def wallCollision_def fin_particle_def width_def height_def
        Let_def)

lemma close_pair:
  "pairCollision (fin_particle 5 200 5 0 5) (fin_particle 7 200 5 0 5) =
    (fin_particle 1 200 5 0 5, fin_particle 11 200 5 0 5)"
  by (simp add: pairCollision_def handleCollision_def Let_def restitution_def fin_particle_def)

lemma close_collisions:
  "particleCollisions [fin_particle 5 200 5 0 5, fin_particle 7 200 5 0 5]
    = [fin_particle 1 200 5 0 5, fin_particle 11 200 5 0 5]"
  by (simp add: particleCollisions_def upt_0_2 collidePair_def close_pair)

text \<open>
  Claim C1 as stated fails: at temperature \<open>100\<close>, one step takes two particles of
  radius \<open>5\<close> and speed \<open>5\<close> to a state where the first is at \<open>x = 1\<close>, outside
  \<open>[5, 395]\<close>.
\<close>

theorem wall_containment_counterexample:
  "updateParticles (Fin 100) [fin_particle 8 200 (- 5) 0 5, fin_particle 2 200 5 0 5]
     = [fin_particle 1 200 5 0 5, fin_particle 11 200 5 0 5]
   \<and> \<not> list_all in_box
        (updateParticles (Fin 100) [fin_particle 8 200 (- 5) 0 5, fin_particle 2 200 5 0 5])"
proof -
  have "updateParticles (Fin 100) [fin_particle 8 200 (- 5) 0 5, fin_particle 2 200 5 0 5]
     = [fin_particle 1 200 5 0 5, fin_particle 11 200 5 0 5]"
    unfolding updateParticles_def close_walls close_collisions
    by (simp add: thermostat_def avgSpeed_def sumSpeed_def speed_def desiredAvgSpeed_def
          baseSpeedFactor_def js_or_def sqrt_25 fin_particle_def)
  then show ?thesis by (simp add: in_box_def)
qed

section \<open>The thermostat\<close>

lemma speed_finite:
  assumes "finite_velocity p"
  shows "speed p = Fin (sqrt (val (vx p) * val (vx p) + val (vy p) * val (vy p)))"
  using assms unfolding finite_velocity_def speed_def
  by (auto elim!: finite_numberE simp: not_sum_squares_lt_zero)

lemma foldl_speed:
  "list_all finite_velocity ps \<Longrightarrow>
   foldl (\<lambda>s p. s + speed p) (Fin a) ps = Fin (a + sum_list (map (\<lambda>p. val (speed p)) ps))"
  by (induction ps arbitrary: a) (simp_all add: speed_finite add.assoc)

lemma sumSpeed_finite:
  "list_all finite_velocity ps \<Longrightarrow> sumSpeed ps = Fin (sum_list (map (\<lambda>p. val (speed p)) ps))"
  by (simp add: sumSpeed_def foldl_speed)

lemma val_speed_nonneg: "0 \<le> val (speed p)"
  unfolding speed_def
  by (cases "vx p * vx p + vy p * vy p") simp_all

text \<open>Scaling a velocity by \<open>s\<close> scales the speed by \<open>\<bar>s\<bar>\<close>.\<close>

lemma scaled_speed:
  assumes "finite_velocity p"
  shows "speed (p\<lparr>vx := vx p * Fin s, vy := vy p * Fin s\<rparr>) = Fin (\<bar>s\<bar> * val (speed p))"
proof -
  from assms obtain u v where uv: "vx p = Fin u" "vy p = Fin v"
    unfolding finite_velocity_def by (auto elim!: finite_numberE)
  have "u * s * (u * s) + v * s * (v * s) = (s * s) * (u * u + v * v)"
    by (simp add: algebra_simps)
  then have "sqrt (u * s * (u * s) + v * s * (v * s)) = \<bar>s\<bar> * sqrt (u * u + v * v)"
    by (simp add: real_sqrt_mult)
  then show ?thesis
    by (simp add: speed_def uv not_sum_squares_lt_zero)
qed

lemma scaled_finite_velocity:
  "finite_velocity p \<Longrightarrow> finite_velocity (p\<lparr>vx := vx p * Fin s, vy := vy p * Fin s\<rparr>)"
  unfolding finite_velocity_def by (auto elim!: finite_numberE)

lemma sum_list_pos:
  fixes f :: "'a \<Rightarrow> real"
  assumes "\<And>x. 0 \<le> f x" and "x \<in> set xs" and "f x \<noteq> 0"
  shows "0 < sum_list (map f xs)"
proof -
  have "f x \<le> sum_list (map f xs)"
    using assms(2)
  proof (induction xs)
    case Nil
    then show ?case by simp
  next
    case (Cons a xs)
    have "0 \<le> sum_list (map f xs)" by (rule sum_list_nonneg) (use assms(1) in auto)
    with Cons assms(1) [of a] show ?case by auto
  qed
  moreover have "0 < f x" using assms(1) [of x] assms(3) by simp
  ultimately show ?thesis by simp
qed

text \<open>
  Claim C2. For a finite temperature \<open>T \<ge> 0\<close> and an ensemble with finite velocities in
  which at least one particle has a nonzero speed before the rescaling, the mean speed
  after the thermostat pass is \<open>baseSpeedFactor * sqrt T\<close>, with
  \<open>baseSpeedFactor = 0.5\<close>. The ensemble is the state the step has reached when the
  thermostat runs; \<open>updateParticles\<close> applies \<open>thermostat (desiredAvgSpeed T)\<close> to it.
\<close>

theorem thermostat_mean_speed:
  assumes fin: "list_all finite_velocity ps"
      and nz: "list_ex (\<lambda>p. speed p \<noteq> Fin 0) ps"
      and T: "finite_number T" "Fin 0 \<le> T"
  shows "avgSpeed (thermostat (desiredAvgSpeed T) ps) = baseSpeedFactor * Math_sqrt T"
proof -
  from T obtain t where t: "T = Fin t" "0 \<le> t" by (auto elim!: finite_numberE)
  define S where "S = sum_list (map (\<lambda>p. val (speed p)) ps)"
  define n where "n = real (length ps)"
  define dsr where "dsr = 1/2 * sqrt t"
  from nz obtain p where p: "p \<in> set ps" "speed p \<noteq> Fin 0"
    by (auto simp: list_ex_iff)
  then have "finite_velocity p" using fin by (simp add: list_all_iff)
  with p(2) have "val (speed p) \<noteq> 0" by (simp add: speed_finite)
  with p(1) have Spos: "0 < S"
    unfolding S_def by (intro sum_list_pos [where x = p] val_speed_nonneg)
  have npos: "0 < n" using p(1) by (cases ps) (simp_all add: n_def)
  have avg: "avgSpeed ps = Fin (S / n)"
    using npos by (simp add: avgSpeed_def sumSpeed_finite [OF fin] S_def n_def)
  have des: "desiredAvgSpeed T = Fin dsr"
    using t by (simp add: desiredAvgSpeed_def baseSpeedFactor_def dsr_def)
  define s where "s = dsr / (S / n)"
  have s0: "0 \<le> s" using Spos npos t by (simp add: s_def dsr_def)
  have th: "thermostat (desiredAvgSpeed T) ps
          = map (\<lambda>p. p\<lparr>vx := vx p * Fin s, vy := vy p * Fin s\<rparr>) ps"
    using Spos npos by (simp add: thermostat_def avg des js_or_def s_def Let_def)
  have fin':
    "list_all finite_velocity (map (\<lambda>p. p\<lparr>vx := vx p * Fin s, vy := vy p * Fin s\<rparr>) ps)"
    using fin by (simp add: list_all_iff scaled_finite_velocity)
  have "sum_list (map (\<lambda>p. val (speed p))
                   (map (\<lambda>p. p\<lparr>vx := vx p * Fin s, vy := vy p * Fin s\<rparr>) ps))
      = sum_list (map (\<lambda>p. s * val (speed p)) ps)"
    unfolding map_map comp_def
    by (rule arg_cong [where f = sum_list], rule map_cong)
       (use fin s0 in \<open>simp_all add: list_all_iff scaled_speed\<close>)
  also have "\<dots> = s * S" by (simp add: S_def sum_list_const_mult)
  finally have S':
    "sum_list (map (\<lambda>p. val (speed p))
                (map (\<lambda>p. p\<lparr>vx := vx p * Fin s, vy := vy p * Fin s\<rparr>) ps)) = s * S" .
  have ss: "sumSpeed (map (\<lambda>p. p\<lparr>vx := vx p * Fin s, vy := vy p * Fin s\<rparr>) ps) = Fin (s * S)"
    by (simp only: sumSpeed_finite [OF fin'] S')
  have "avgSpeed (thermostat (desiredAvgSpeed T) ps) = Fin (s * S / n)"
    using npos unfolding th avgSpeed_def ss by (simp add: n_def)
  also have "s * S / n = dsr" using Spos npos by (simp add: s_def)
  also have "Fin dsr = baseSpeedFactor * Math_sqrt T"
    using des by (simp add: desiredAvgSpeed_def)
  finally show ?thesis .
qed

text \<open>
  Speeds \<open>5\<close> and \<open>0\<close> at temperature \<open>100\<close>: the mean goes from \<open>2.5\<close> to
  \<open>0.5 * sqrt 100 = 5\<close>.
\<close>

theorem thermostat_mean_speed_witness:
  "avgSpeed (thermostat (desiredAvgSpeed (Fin 100))
             [fin_particle 0 0 3 4 5, fin_particle 10 10 0 0 5]) = Fin 5"
  using thermostat_mean_speed [of "[fin_particle 0 0 3 4 5, fin_particle 10 10 0 0 5]" "Fin 100"]
  by (simp add: finite_velocity_def speed_def sqrt_25 sqrt_100 baseSpeedFactor_def)

text \<open>
  Claim C9. In a nonempty ensemble where every velocity is exactly zero, at a finite
  temperature \<open>T \<ge> 0\<close>, neither division of the thermostat has a zero divisor: the mean
  speed is \<open>0\<close> divided by the number of particles, the scale is the desired speed
  divided by \<open>avgSpeed || 1 = 1\<close>; and every particle is at rest after the pass.
\<close>

theorem thermostat_at_rest:
  assumes rest: "list_all (\<lambda>p. vx p = Fin 0 \<and> vy p = Fin 0) ps"
      and ne: "ps \<noteq> []"
      and T: "finite_number T" "Fin 0 \<le> T"
  shows "Fin (real (length ps)) \<noteq> Fin 0
       \<and> avgSpeed ps = Fin 0
       \<and> js_or (avgSpeed ps) (Fin 1) = Fin 1
       \<and> list_all (\<lambda>p. vx p = Fin 0 \<and> vy p = Fin 0) (thermostat (desiredAvgSpeed T) ps)"
proof -
  from T obtain t where t: "T = Fin t" "0 \<le> t" by (auto elim!: finite_numberE)
  have fv: "list_all finite_velocity ps"
    using rest by (simp add: list_all_iff finite_velocity_def)
  have "\<forall>p\<in>set ps. val (speed p) = 0"
    using rest by (simp add: list_all_iff speed_def)
  then have "sum_list (map (\<lambda>p. val (speed p)) ps) = 0"
    by (induction ps) simp_all
  then have S: "sumSpeed ps = Fin 0"
    by (simp only: sumSpeed_finite [OF fv])
  have n: "real (length ps) \<noteq> 0" using ne by simp
  then have avg: "avgSpeed ps = Fin 0" by (simp add: avgSpeed_def S)
  have des: "desiredAvgSpeed T = Fin (1/2 * sqrt t)"
    using t by (simp add: desiredAvgSpeed_def baseSpeedFactor_def)
  have "list_all (\<lambda>p. vx p = Fin 0 \<and> vy p = Fin 0) (thermostat (desiredAvgSpeed T) ps)"
    using rest by (simp add: thermostat_def avg js_or_def des Let_def list_all_iff)
  with n avg show ?thesis by (simp add: js_or_def)
qed

theorem thermostat_at_rest_witness:
  "list_all (\<lambda>p. vx p = Fin 0 \<and> vy p = Fin 0)
     (thermostat (desiredAvgSpeed (Fin 100)) [fin_particle 10 10 0 0 5, fin_particle 30 30 0 0 5])"
  using thermostat_at_rest [of "[fin_particle 10 10 0 0 5, fin_particle 30 30 0 0 5]" "Fin 100"]
  by simp

section \<open>States reached from a finite ensemble\<close>

lemma NaN_arith [simp]:
  "a - NaN = NaN" "NaN - a = NaN" "a + NaN = NaN" "a * NaN = NaN"
  by (cases a; simp add: minus_number_def)+

lemma NaN_less [simp]: "\<not> NaN < (a::number)" "\<not> a < NaN"
  by (cases a; simp)+

lemma proper_cases:
  assumes "proper_particle p"
  obtains x y u v r where "p = fin_particle x y u v r"
        | u v r where "p = \<lparr>px = NaN, py = NaN, vx = Fin u, vy = Fin v, radius = Fin r\<rparr>"
proof -
  from assms obtain u v r where f: "vx p = Fin u" "vy p = Fin v" "radius p = Fin r"
    unfolding proper_particle_def by (auto elim!: finite_numberE)
  from assms consider "finite_number (px p) \<and> finite_number (py p)" | "px p = NaN \<and> py p = NaN"
    unfolding proper_particle_def by blast
  then show thesis
  proof cases
    case 1
    then obtain x y where "px p = Fin x" "py p = Fin y" by (auto elim!: finite_numberE)
    with f have "p = fin_particle x y u v r" by (cases p) (simp add: fin_particle_def)
    then show thesis by (rule that(1))
  next
    case 2
    with f have "p = \<lparr>px = NaN, py = NaN, vx = Fin u, vy = Fin v, radius = Fin r\<rparr>"
      by (cases p) simp
    then show thesis by (rule that(2))
  qed
qed

lemma proper_fin [simp]: "proper_particle (fin_particle x y u v r)"
  by (simp add: proper_particle_def)

lemma proper_NaN [simp]:
  "proper_particle \<lparr>px = NaN, py = NaN, vx = Fin u, vy = Fin v, radius = Fin r\<rparr>"
  by (simp add: proper_particle_def)

lemma updatePosition_proper: "proper_particle p \<Longrightarrow> proper_particle (updatePosition p)"
  by (erule proper_cases) (simp_all add: updatePosition_def proper_particle_def)

lemma wallCollision_proper: "proper_particle p \<Longrightarrow> proper_particle (wallCollision p)"
  by (erule proper_cases)
     (simp_all add: wallCollision_def proper_particle_def Let_def width_def height_def)

lemma pairCollision_proper:
  assumes "proper_particle p1" "proper_particle p2"
  shows "proper_particle (fst (pairCollision p1 p2)) \<and> proper_particle (snd (pairCollision p1 p2))"
  using assms(1)
proof (cases rule: proper_cases)
  case (1 x1 y1 u1 v1 r1)
  note p1 = this
  from assms(2) show ?thesis
  proof (cases rule: proper_cases)
    case (1 x2 y2 u2 v2 r2)
    note p2 = this
    define d where "d = sqrt ((x2 - x1) * (x2 - x1) + (y2 - y1) * (y2 - y1))"
    show ?thesis
    proof (cases "d < r1 + r2")
      case False
      then have "pairCollision p1 p2 = (p1, p2)"
        by (simp add: pairCollision_def p1 p2 Let_def not_sum_squares_lt_zero d_def)
      with assms show ?thesis by simp
    next
      case True
      show ?thesis
      proof (cases "d = 0")
        case True
        then have "x2 = x1" "y2 = y1" by (simp_all add: d_def real_sqrt_eq_zero_cancel_iff sum_squares_eq_zero_iff)
        with \<open>d < r1 + r2\<close> True show ?thesis
          by (simp add: p1 p2 pairCollision_coincident)
      next
        case False
        from pairCollision_fin [OF d_def False True refl refl, of u1 v1 u2 v2]
        show ?thesis unfolding p1 p2 by auto
      qed
    qed
  next
    case (2 u2 v2 r2)
    then have "pairCollision p1 p2 = (p1, p2)"
      by (simp add: pairCollision_def Let_def)
    with assms show ?thesis by simp
  qed
next
  case (2 u1 v1 r1)
  then have "pairCollision p1 p2 = (p1, p2)"
    by (simp add: pairCollision_def Let_def)
  with assms show ?thesis by simp
qed

lemma collidePair_proper:
  assumes "list_all proper_particle ps" "i < length ps" "j < length ps"
  shows "list_all proper_particle (collidePair i j ps)"
proof -
  from assms have "proper_particle (ps ! i)" "proper_particle (ps ! j)"
    by (simp_all add: list_all_length)
  from pairCollision_proper [OF this] assms(1) show ?thesis
    by (auto simp: collidePair_def split_beta list_all_iff dest!: set_update_subset_insert [THEN subsetD])
qed

lemma length_collidePair [simp]: "length (collidePair i j ps) = length ps"
  by (simp add: collidePair_def split_beta)

lemma inner_proper:
  assumes "list_all proper_particle ps" "i < length ps" "\<forall>j\<in>set js. j < length ps"
  shows "list_all proper_particle (fold (\<lambda>j ps. collidePair i j ps) js ps)
       \<and> length (fold (\<lambda>j ps. collidePair i j ps) js ps) = length ps"
  using assms by (induction js arbitrary: ps) (simp_all add: collidePair_proper)

lemma outer_proper:
  assumes "list_all proper_particle ps" "\<forall>i\<in>set is. i < length ps"
  shows "list_all proper_particle
           (fold (\<lambda>i ps. fold (\<lambda>j ps. collidePair i j ps) [i + 1 ..< length ps] ps) is ps)
       \<and> length (fold (\<lambda>i ps. fold (\<lambda>j ps. collidePair i j ps) [i + 1 ..< length ps] ps) is ps)
           = length ps"
  using assms
proof (induction "is" arbitrary: ps)
  case Nil
  then show ?case by simp
next
  case (Cons i "is")
  from Cons.prems have i: "i < length ps" by simp
  have inner: "list_all proper_particle (fold (\<lambda>j ps. collidePair i j ps) [i + 1 ..< length ps] ps)
       \<and> length (fold (\<lambda>j ps. collidePair i j ps) [i + 1 ..< length ps] ps) = length ps"
    by (rule inner_proper) (use Cons.prems i in auto)
  with Cons.prems Cons.IH [of "fold (\<lambda>j ps. collidePair i j ps) [i + 1 ..< length ps] ps"]
  show ?case by simp
qed

lemma particleCollisions_proper:
  "list_all proper_particle ps \<Longrightarrow> list_all proper_particle (particleCollisions ps)"
  unfolding particleCollisions_def using outer_proper [of ps "[0 ..< length ps]"] by simp

lemma proper_finite_velocity: "proper_particle p \<Longrightarrow> finite_velocity p"
  by (simp add: proper_particle_def finite_velocity_def)

lemma thermostat_proper:
  assumes "list_all proper_particle ps" "finite_number d"
  shows "list_all proper_particle (thermostat d ps)"
proof -
  from assms(2) obtain dr where d: "d = Fin dr" by (rule finite_numberE)
  have fv: "list_all finite_velocity ps"
    using assms(1) by (simp add: list_all_iff proper_finite_velocity)
  obtain a where a: "avgSpeed ps = Fin a \<or> avgSpeed ps = NaN"
    by (cases "real (length ps) = 0") (simp_all add: avgSpeed_def sumSpeed_finite [OF fv])
  have "\<exists>s. d / js_or (avgSpeed ps) (Fin 1) = Fin s"
  proof (cases "truthy (avgSpeed ps)")
    case True
    with a have "avgSpeed ps = Fin a" "a \<noteq> 0" by (auto simp: truthy_def)
    then show ?thesis by (simp add: js_or_def d)
  next
    case False
    then show ?thesis by (simp add: js_or_def d)
  qed
  then obtain s where "d / js_or (avgSpeed ps) (Fin 1) = Fin s" ..
  then show ?thesis
    using assms(1)
    by (auto simp: thermostat_def Let_def list_all_iff proper_particle_def elim!: finite_numberE)
qed

lemma updateParticles_proper:
  assumes "list_all proper_particle ps" "finite_number T" "Fin 0 \<le> T"
  shows "list_all proper_particle (updateParticles T ps)"
proof -
  from assms(2,3) obtain t where "T = Fin t" "0 \<le> t" by (auto elim!: finite_numberE)
  then have "finite_number (desiredAvgSpeed T)"
    by (simp add: desiredAvgSpeed_def baseSpeedFactor_def)
  moreover have "list_all proper_particle (map wallCollision (map updatePosition ps))"
    using assms(1) by (simp add: list_all_iff wallCollision_proper updatePosition_proper)
  ultimately show ?thesis
    unfolding updateParticles_def by (intro thermostat_proper particleCollisions_proper)
qed

lemma finite_proper: "finite_particle p \<Longrightarrow> proper_particle p"
  by (simp add: finite_particle_def proper_particle_def)

text \<open>
  So the velocities are finite before the thermostat pass of every step, however many
  steps were taken.
\<close>

lemma steps_proper:
  assumes "list_all finite_particle ps" "finite_number T" "Fin 0 \<le> T"
  shows "list_all proper_particle ((updateParticles T ^^ n) ps)"
proof (induction n)
  case 0
  from assms(1) show ?case by (simp add: list_all_iff finite_proper)
next
  case (Suc n)
  then show ?case by (simp add: updateParticles_proper assms(2,3))
qed

section \<open>The distribution model\<close>

text \<open>
  Claim C6. For every finite energy \<open>e \<ge> 0\<close> and finite temperature \<open>t\<close>, with
  \<open>T_eff = 0.5 t + 50\<close>: \<open>mbDistribution\<close> returns \<open>0\<close> when \<open>T_eff \<le> 0\<close>, and
  otherwise \<open>0.72 * (2 / sqrt pi) * (2 / T_eff) ^ 1.5 * sqrt e * exp (- e / T_eff) * 50\<close>.
\<close>

theorem mbDistribution_formula:
  assumes "0 \<le> e"
  shows "mbDistribution (Fin e) (Fin t) =
     Fin (if 0.5 * t + 50 \<le> 0 then 0
          else 0.72 * (2 / sqrt pi) * (2 / (0.5 * t + 50)) powr 1.5 * sqrt e
                 * exp (- e / (0.5 * t + 50)) * 50)"
  using assms
  by (simp add: mbDistribution_def effectiveTemperature_def Let_def Math_PI_def sharpness_def
        totalParticles_def)

text \<open>At \<open>T = 300\<close> (\<open>T_eff = 200\<close>) and \<open>E = 200\<close>; and at \<open>T = -100\<close> (\<open>T_eff = 0\<close>).\<close>

theorem mbDistribution_formula_witness:
  "mbDistribution (Fin 200) (Fin 300)
     = Fin (0.72 * (2 / sqrt pi) * (2 / 200) powr 1.5 * sqrt 200 * exp (- 1) * 50)
   \<and> mbDistribution (Fin 200) (Fin (- 100)) = Fin 0"
  using mbDistribution_formula [of 200 300] mbDistribution_formula [of 200 "- 100"]
  by simp

text \<open>The sums of the two summaries over a curve of finite points.\<close>

lemma fold_E_mean:
  "fold (\<lambda>pt (sumE, sumF). (sumE + pt_x pt * pt_y pt, sumF + pt_y pt)) (map fin_point pts)
        (Fin a, Fin b)
    = (Fin (a + sum_list (map (\<lambda>(e, f). e * f) pts)), Fin (b + sum_list (map snd pts)))"
  by (induction pts arbitrary: a b) (simp_all add: fin_point_def case_prod_beta add.assoc)

lemma foldl_area:
  "foldl (\<lambda>sum pt. sum + pt_y pt) (Fin a) (map fin_point pts)
    = Fin (a + sum_list (map snd pts))"
  by (induction pts arbitrary: a) (simp_all add: fin_point_def add.assoc)

lemma filter_fin_point:
  "filter (\<lambda>pt. Fin c \<le> pt_x pt) (map fin_point pts)
     = map fin_point (filter (\<lambda>(e, f). c \<le> e) pts)"
  by (induction pts) (simp_all add: fin_point_def case_prod_beta)

text \<open>The curve generated for a finite temperature has \<open>601\<close> points, all finite.\<close>

lemma mbDistribution_finite:
  "0 \<le> e \<Longrightarrow> mbDistribution (Fin e) (Fin t) = Fin (val (mbDistribution (Fin e) (Fin t)))"
  by (simp add: mbDistribution_def effectiveTemperature_def Let_def Math_PI_def sharpness_def
        totalParticles_def)

lemma dynamicData_fin: "dynamicData (Fin t) = map fin_point (curve (Fin t))"
  unfolding curve_def dynamicData_def energies_def map_map
  by (rule map_cong) (simp_all add: fin_point_def mbDistribution_finite [symmetric])

lemma length_curve: "length (curve T) = 601"
  by (simp add: curve_def dynamicData_def energies_def)

text \<open>
  Claim C7. On every curve of finite points, \<open>E_mean\<close> is the density-weighted
  average: the sum of \<open>E f(E)\<close> over the points divided by the sum of \<open>f(E)\<close>, and
  \<open>0\<close> when the sum of \<open>f(E)\<close> is \<open>0\<close>. The curve generated for a finite temperature
  is such a curve, so the same holds on it.
\<close>

theorem E_mean_weighted:
  "E_mean (map fin_point pts) = Fin (spec_mean_energy pts)
   \<and> dynamicData (Fin t) = map fin_point (curve (Fin t))
   \<and> E_mean (dynamicData (Fin t)) = Fin (spec_mean_energy (curve (Fin t)))"
proof -
  have "E_mean (map fin_point qs) = Fin (spec_mean_energy qs)" for qs
    by (simp add: E_mean_def fold_E_mean spec_mean_energy_def)
  then show ?thesis
    by (simp add: dynamicData_fin [symmetric]) (simp add: dynamicData_fin)
qed

theorem E_mean_weighted_witness:
  "E_mean [\<lparr>pt_x = Fin 1, pt_y = Fin 2\<rparr>, \<lparr>pt_x = Fin 3, pt_y = Fin 2\<rparr>] = Fin 2
   \<and> E_mean [\<lparr>pt_x = Fin 1, pt_y = Fin 0\<rparr>, \<lparr>pt_x = Fin 3, pt_y = Fin 0\<rparr>] = Fin 0"
  using E_mean_weighted [of "[(1, 2), (3, 2)]" 300] E_mean_weighted [of "[(1, 0), (3, 0)]" 300]
  by (simp add: fin_point_def spec_mean_energy_def)

text \<open>
  Claim C8. On every curve of finite points, \<open>percentageAbove\<close> is \<open>100\<close> times the
  sum of the density over the points with \<open>E \<ge> threshold\<close>, divided by the sum over all
  points, and \<open>0\<close> when the latter is \<open>0\<close>; the threshold is \<open>300\<close> with the catalyst
  and \<open>400\<close> without. The curve generated for a finite temperature is such a curve, so
  the same holds on it.
\<close>

theorem percentageAbove_formula:
  "percentageAbove showCatalyst (map fin_point pts)
     = Fin (spec_percentage_above (if showCatalyst then 300 else 400) pts)
   \<and> dynamicData (Fin t) = map fin_point (curve (Fin t))
   \<and> percentageAbove showCatalyst (dynamicData (Fin t))
     = Fin (spec_percentage_above (if showCatalyst then 300 else 400) (curve (Fin t)))"
proof -
  have "percentageAbove showCatalyst (map fin_point qs)
      = Fin (spec_percentage_above (if showCatalyst then 300 else 400) qs)" for qs
    by (simp add: percentageAbove_def threshold_def foldl_area filter_fin_point Let_def
          spec_percentage_above_def)
  then have "percentageAbove showCatalyst (map fin_point pts)
      = Fin (spec_percentage_above (if showCatalyst then 300 else 400) pts)"
    and "percentageAbove showCatalyst (map fin_point (curve (Fin t)))
      = Fin (spec_percentage_above (if showCatalyst then 300 else 400) (curve (Fin t)))"
    by blast+
  then show ?thesis
    unfolding dynamicData_fin by simp
qed

theorem percentageAbove_formula_witness:
  "percentageAbove True [\<lparr>pt_x = Fin 100, pt_y = Fin 1\<rparr>, \<lparr>pt_x = Fin 350, pt_y = Fin 3\<rparr>]
     = Fin 75
   \<and> percentageAbove False [\<lparr>pt_x = Fin 100, pt_y = Fin 1\<rparr>, \<lparr>pt_x = Fin 350, pt_y = Fin 3\<rparr>]
     = Fin 0
   \<and> percentageAbove False [\<lparr>pt_x = Fin 100, pt_y = Fin 0\<rparr>, \<lparr>pt_x = Fin 450, pt_y = Fin 0\<rparr>]
     = Fin 0"
  using percentageAbove_formula [of True "[(100, 1), (350, 3)]" 300]
        percentageAbove_formula [of False "[(100, 1), (350, 3)]" 300]
        percentageAbove_formula [of False "[(100, 0), (450, 0)]" 300]
  by (simp add: fin_point_def spec_percentage_above_def)

end
